theory Spec2Isabelle
  imports Complex_Main "HOL-Library.Sublist"
begin

section \<open>Python values\<close>

text \<open>
  A Python \<open>str\<close> is a sequence of Unicode code points, so it is modelled as a list of
  natural numbers. \<open>lit\<close> turns an ASCII literal of the source into that form.
\<close>

type_synonym pystr = "nat list"

definition lit :: "string \<Rightarrow> pystr" where
  "lit s = map of_char s"

text \<open>
  A Python \<open>float\<close>. Every finite double is a rational number; the handler never computes
  with floats, it only passes them on, so the model admits every rational.
\<close>

datatype pyfloat = Finite rat | NegZero | PosInf | NegInf | NaN

text \<open>
  What \<open>response.json()\<close> can return. A \<open>dict\<close> is an association list read with
  \<open>map_of\<close>; its keys are strings, as in every decoded JSON object.
\<close>

datatype pyval =
    PNone
  | PBool bool
  | PInt int
  | PFloat pyfloat
  | PStr pystr
  | PList "pyval list"
  | PDict "(pystr \<times> pyval) list"

text \<open>
  The exceptions that can leave \<open>fetch_weather\<close>. \<open>HTTPException\<close> carries
  \<open>status_code\<close> and \<open>detail\<close>; \<open>ValidationError\<close> carries the names of the rejected
  fields; \<open>RequestError\<close> stands for any failure of the HTTP client to obtain a response;
  \<open>UnicodeEncodeError\<close> and \<open>OSError\<close> are what \<open>print\<close> raises when \<open>sys.stdout\<close> cannot
  encode a string or cannot be written.
\<close>

datatype exn =
    HTTPException int pystr
  | KeyError pyval
  | IndexError
  | TypeError
  | AttributeError
  | ValidationError "pystr list"
  | JSONDecodeError
  | RequestError
  | UnicodeEncodeError
  | OSError


definition bind_exn :: "exn + 'a \<Rightarrow> ('a \<Rightarrow> exn + 'b) \<Rightarrow> exn + 'b" where
  "bind_exn m f = (case m of Inl e \<Rightarrow> Inl e | Inr x \<Rightarrow> f x)"

section \<open>Data model\<close>

record WeatherInfo =
  city :: pystr
  temperature_celsius :: pyfloat
  humidity_percent :: int
  weather_description :: pystr
  wind_speed_mps :: pyfloat

text \<open>The arguments of \<open>client.get(api_url, params=query_parameters)\<close>.\<close>

record request =
  url :: pystr
  params :: "(pystr \<times> pystr) list"

text \<open>
  The upstream response: \<open>status_code\<close>, \<open>text\<close> (named \<open>resp_text\<close> here) and what a
  call of \<open>json()\<close> yields (the decoded body, or the decoder's exception).
\<close>

record response =
  status_code :: int
  resp_text :: pystr
  json :: "exn + pyval"

type_synonym upstream = "request \<Rightarrow> exn + response"

text \<open>
  Why \<open>sys.stdout.write\<close> refuses a string: the encoding of the stream has no form for
  one of its characters, or the stream cannot be written. \<open>raised\<close> is the exception that
  leaves \<open>print\<close> then.
\<close>

datatype stdout_failure = CannotEncode | CannotWrite

fun raised :: "stdout_failure \<Rightarrow> exn" where
  "raised CannotEncode = UnicodeEncodeError"
| "raised CannotWrite = OSError"

text \<open>
  The process state the handler touches: the environment, the outbound calls issued so
  far, the strings written to \<open>sys.stdout\<close>, and which strings the stream refuses
  (\<open>None\<close> when it takes the string).
\<close>

record world =
  environ :: "pystr \<rightharpoonup> pystr"
  outbound :: "request list"
  stdout :: "pystr list"
  stdout_error :: "pystr \<Rightarrow> stdout_failure option"

text \<open>
  Behaviour of the interpreter and of the validation library that the repository does not
  contain: the Unicode case tables beyond ASCII (\<open>lower_full\<close> sees the whole string and
  the index, since lower-casing a capital sigma depends on its context), the conversion
  of integers too large to be exact doubles, and the library's coercions of values whose
  type is not the declared one (\<open>None\<close> when the value is rejected).
\<close>

record runtime =
  title_full :: "nat \<Rightarrow> pystr"
  lower_full :: "pystr \<Rightarrow> nat \<Rightarrow> pystr"
  big_int_to_float :: "int \<Rightarrow> pyfloat option"
  lax_str :: "pyval \<Rightarrow> pystr option"
  lax_int :: "pyval \<Rightarrow> int option"
  lax_float :: "pyval \<Rightarrow> pyfloat option"

section \<open>\<open>str.capitalize\<close>\<close>

definition ascii_upper :: "nat \<Rightarrow> nat" where
  "ascii_upper c = (if 97 \<le> c \<and> c \<le> 122 then c - 32 else c)"

definition ascii_lower :: "nat \<Rightarrow> nat" where
  "ascii_lower c = (if 65 \<le> c \<and> c \<le> 90 then c + 32 else c)"

definition to_title :: "runtime \<Rightarrow> nat \<Rightarrow> pystr" where
  "to_title rt c = (if c < 128 then [ascii_upper c] else title_full rt c)"

definition to_lower_at :: "runtime \<Rightarrow> pystr \<Rightarrow> nat \<Rightarrow> pystr" where
  "to_lower_at rt s i = (if s ! i < 128 then [ascii_lower (s ! i)] else lower_full rt s i)"

text \<open>
  \<open>s.capitalize()\<close>: the first character in title case, every later character in lower
  case; the empty string is returned as it is.
\<close>

definition capitalize :: "runtime \<Rightarrow> pystr \<Rightarrow> pystr" where
  "capitalize rt s =
     (case s of
        [] \<Rightarrow> []
      | c # _ \<Rightarrow> to_title rt c @ concat (map (to_lower_at rt s) [1..<length s]))"

section \<open>Access to the decoded body\<close>

text \<open>\<open>data.get(k)\<close>: only a dict has the method.\<close>

fun dict_get :: "pyval \<Rightarrow> pystr \<Rightarrow> exn + pyval" where
  "dict_get (PDict kvs) k = Inr (case map_of kvs k of None \<Rightarrow> PNone | Some v \<Rightarrow> v)"
| "dict_get _ k = Inl AttributeError"

text \<open>\<open>obj[k]\<close> for a string key \<open>k\<close>.\<close>

fun getitem_key :: "pyval \<Rightarrow> pystr \<Rightarrow> exn + pyval" where
  "getitem_key (PDict kvs) k =
     (case map_of kvs k of None \<Rightarrow> Inl (KeyError (PStr k)) | Some v \<Rightarrow> Inr v)"
| "getitem_key _ k = Inl TypeError"

text \<open>\<open>obj[0]\<close>.\<close>

fun getitem_0 :: "pyval \<Rightarrow> exn + pyval" where
  "getitem_0 (PList xs) = (case xs of [] \<Rightarrow> Inl IndexError | x # _ \<Rightarrow> Inr x)"
| "getitem_0 (PStr s) = (case s of [] \<Rightarrow> Inl IndexError | c # _ \<Rightarrow> Inr (PStr [c]))"
| "getitem_0 (PDict kvs) = Inl (KeyError (PInt 0))"
| "getitem_0 _ = Inl TypeError"

text \<open>\<open>obj.capitalize()\<close>: only a str has the method.\<close>

fun call_capitalize :: "runtime \<Rightarrow> pyval \<Rightarrow> exn + pyval" where
  "call_capitalize rt (PStr s) = Inr (PStr (capitalize rt s))"
| "call_capitalize rt _ = Inl AttributeError"

section \<open>Construction of a \<open>WeatherInfo\<close>\<close>

definition validate_str :: "runtime \<Rightarrow> pyval \<Rightarrow> pystr option" where
  "validate_str rt v =
     (case v of PStr s \<Rightarrow> Some s | PNone \<Rightarrow> None | _ \<Rightarrow> lax_str rt v)"

definition validate_int :: "runtime \<Rightarrow> pyval \<Rightarrow> int option" where
  "validate_int rt v =
     (case v of PInt i \<Rightarrow> Some i | PNone \<Rightarrow> None | _ \<Rightarrow> lax_int rt v)"

definition int_to_float :: "runtime \<Rightarrow> int \<Rightarrow> pyfloat option" where
  "int_to_float rt i =
     (if \<bar>i\<bar> \<le> 2 ^ 53 then Some (Finite (of_int i)) else big_int_to_float rt i)"

definition validate_float :: "runtime \<Rightarrow> pyval \<Rightarrow> pyfloat option" where
  "validate_float rt v =
     (case v of
        PFloat f \<Rightarrow> Some f
      | PInt i \<Rightarrow> int_to_float rt i
      | PNone \<Rightarrow> None
      | _ \<Rightarrow> lax_float rt v)"

definition field_error :: "'a option \<Rightarrow> string \<Rightarrow> pystr list" where
  "field_error r name = (case r of None \<Rightarrow> [lit name] | Some _ \<Rightarrow> [])"

text \<open>
  \<open>WeatherInfo(city=c, temperature_celsius=t, humidity_percent=h,
  weather_description=d, wind_speed_mps=s)\<close>: every field is validated against its
  declared type, and one \<open>ValidationError\<close> reports all the rejected fields.
\<close>

definition WeatherInfo_init ::
  "runtime \<Rightarrow> pyval \<Rightarrow> pyval \<Rightarrow> pyval \<Rightarrow> pyval \<Rightarrow> pyval \<Rightarrow> exn + WeatherInfo" where
  "WeatherInfo_init rt c t h d s =
     (case (validate_str rt c, validate_float rt t, validate_int rt h,
            validate_str rt d, validate_float rt s) of
        (Some c', Some t', Some h', Some d', Some s') \<Rightarrow>
          Inr \<lparr>city = c', temperature_celsius = t', humidity_percent = h',
               weather_description = d', wind_speed_mps = s'\<rparr>
      | _ \<Rightarrow>
          Inl (ValidationError
                (field_error (validate_str rt c) ''city''
                 @ field_error (validate_float rt t) ''temperature_celsius''
                 @ field_error (validate_int rt h) ''humidity_percent''
                 @ field_error (validate_str rt d) ''weather_description''
                 @ field_error (validate_float rt s) ''wind_speed_mps'')))"

section \<open>\<open>str\<close> of an integer\<close>

text \<open>\<open>str(n)\<close> for an integer: its decimal digits, after a minus sign when negative.\<close>

fun digits :: "nat \<Rightarrow> pystr" where
  "digits n = (if n < 10 then [48 + n] else digits (n div 10) @ [48 + n mod 10])"

declare digits.simps [simp del]

definition str_int :: "int \<Rightarrow> pystr" where
  "str_int i = (if i < 0 then 45 # digits (nat (- i)) else digits (nat i))"

section \<open>The handler\<close>

definition API_KEY_NAME :: pystr where
  "API_KEY_NAME = lit ''OPENWEATHERMAP_API_KEY''"

definition api_url :: pystr where
  "api_url = lit ''https://api.openweathermap.org/data/2.5/weather''"

definition query_parameters :: "pystr \<Rightarrow> pystr \<Rightarrow> (pystr \<times> pystr) list" where
  "query_parameters city_name api_key =
     [(lit ''q'', city_name), (lit ''appid'', api_key), (lit ''units'', lit ''metric'')]"

definition key_missing_detail :: pystr where
  "key_missing_detail =
     lit ''OpenWeatherMap API key is missing. Please set it in your environment variables.''"

text \<open>The f-string \<open>f"City '{city_name}' not found."\<close>; 39 is the apostrophe.\<close>

definition not_found_detail :: "pystr \<Rightarrow> pystr" where
  "not_found_detail city_name = lit ''City '' @ [39] @ city_name @ [39] @ lit '' not found.''"

definition upstream_failure_detail :: pystr where
  "upstream_failure_detail = lit ''Something went wrong while fetching weather data.''"

text \<open>
  Lines 57 to 65: decode the body, evaluate the five keyword arguments from left to
  right, then construct the report. The first exception raised ends the evaluation.
\<close>

definition extract_report :: "runtime \<Rightarrow> response \<Rightarrow> exn + WeatherInfo" where
  "extract_report rt resp =
     bind_exn (json resp) (\<lambda>data.
     bind_exn (dict_get data (lit ''name'')) (\<lambda>c.
     bind_exn (getitem_key data (lit ''main'')) (\<lambda>m1.
     bind_exn (getitem_key m1 (lit ''temp'')) (\<lambda>t.
     bind_exn (getitem_key data (lit ''main'')) (\<lambda>m2.
     bind_exn (getitem_key m2 (lit ''humidity'')) (\<lambda>h.
     bind_exn (getitem_key data (lit ''weather'')) (\<lambda>ws.
     bind_exn (getitem_0 ws) (\<lambda>w0.
     bind_exn (getitem_key w0 (lit ''description'')) (\<lambda>d0.
     bind_exn (call_capitalize rt d0) (\<lambda>d.
     bind_exn (getitem_key data (lit ''wind'')) (\<lambda>wi.
     bind_exn (getitem_key wi (lit ''speed'')) (\<lambda>s.
     WeatherInfo_init rt c t h d s))))))))))))"

text \<open>The call \<open>client.get(api_url, params=query_parameters)\<close> leaves the process.\<close>

definition send :: "request \<Rightarrow> world \<Rightarrow> world" where
  "send req w = w\<lparr>outbound := outbound w @ [req]\<rparr>"

text \<open>
  Writing strings to \<open>sys.stdout\<close> one after the other: the first one the stream refuses
  raises, and the later ones are not written.
\<close>

fun write_all :: "pystr list \<Rightarrow> world \<Rightarrow> exn option \<times> world" where
  "write_all [] w = (None, w)"
| "write_all (s # ss) w =
     (case stdout_error w s of
        Some f \<Rightarrow> (Some (raised f), w)
      | None \<Rightarrow> write_all ss (w\<lparr>stdout := stdout w @ [s]\<rparr>))"

text \<open>
  \<open>print(a, b)\<close> writes \<open>str(a)\<close>, a space, \<open>str(b)\<close> and a newline (code point 10).
\<close>

definition print2 :: "pystr \<Rightarrow> pystr \<Rightarrow> world \<Rightarrow> exn option \<times> world" where
  "print2 a b w = write_all [a, lit '' '', b, [10]] w"

text \<open>
  The two \<open>print\<close> calls of lines 48 and 49, which run before the status is looked at.
  The result is the exception raised, if any, and the world after the writes.
\<close>

definition print_debug :: "response \<Rightarrow> world \<Rightarrow> exn option \<times> world" where
  "print_debug resp w =
     (case print2 (lit ''OpenWeatherMap status code:'') (str_int (status_code resp)) w of
        (Some e, w1) \<Rightarrow> (Some e, w1)
      | (None, w1) \<Rightarrow> print2 (lit ''Response text:'') (resp_text resp) w1)"

text \<open>Lines 51 to 65: the classification of the upstream status.\<close>

definition classify :: "runtime \<Rightarrow> pystr \<Rightarrow> response \<Rightarrow> exn + WeatherInfo" where
  "classify rt city_name resp =
     (if status_code resp = 404 then Inl (HTTPException 404 (not_found_detail city_name))
      else if status_code resp \<noteq> 200 then Inl (HTTPException 502 upstream_failure_detail)
      else extract_report rt resp)"

text \<open>
  \<open>fetch_weather(city_name)\<close>, in the order of the source: read the key and refuse when it
  is falsy (\<open>None\<close> or the empty string); issue the GET; print the two debugging lines,
  which may raise; classify the status; extract the report.
\<close>

definition fetch_weather ::
  "runtime \<Rightarrow> upstream \<Rightarrow> pystr \<Rightarrow> world \<Rightarrow> (exn + WeatherInfo) \<times> world" where
  "fetch_weather rt client city_name w =
     (case environ w API_KEY_NAME of
        None \<Rightarrow> (Inl (HTTPException 500 key_missing_detail), w)
      | Some api_key \<Rightarrow>
          if api_key = [] then (Inl (HTTPException 500 key_missing_detail), w)
          else
            (let req = \<lparr>url = api_url, params = query_parameters city_name api_key\<rparr>
             in case client req of
                  Inl e \<Rightarrow> (Inl e, send req w)
                | Inr resp \<Rightarrow>
                    (case print_debug resp (send req w) of
                       (Some e, w') \<Rightarrow> (Inl e, w')
                     | (None, w') \<Rightarrow> (classify rt city_name resp, w'))))"

text \<open>The route \<open>GET /weather/{city_name}\<close> awaits \<open>fetch_weather\<close> and returns its result.\<close>

definition get_weather ::
  "runtime \<Rightarrow> upstream \<Rightarrow> pystr \<Rightarrow> world \<Rightarrow> (exn + WeatherInfo) \<times> world" where
  "get_weather rt client city_name w = fetch_weather rt client city_name w"

section \<open>Vocabulary of the properties\<close>

text \<open>
  The predicates below are not part of the handler; the properties are stated with them.
  \<open>has_expected_fields\<close> holds of a decoded body in which every path the handler reads
  (\<open>name\<close>, \<open>main.temp\<close>, \<open>main.humidity\<close>, \<open>weather[0].description\<close>,
  \<open>wind.speed\<close>) is present, whatever value it holds.
\<close>

definition has_field :: "(pystr \<times> pyval) list \<Rightarrow> pystr \<Rightarrow> bool" where
  "has_field kvs k = (case map_of kvs k of None \<Rightarrow> False | Some _ \<Rightarrow> True)"

definition has_expected_fields :: "pyval \<Rightarrow> bool" where
  "has_expected_fields data =
     (case data of
        PDict d \<Rightarrow>
          has_field d (lit ''name'')
          \<and> (case map_of d (lit ''main'') of
                Some (PDict m) \<Rightarrow> has_field m (lit ''temp'') \<and> has_field m (lit ''humidity'')
              | _ \<Rightarrow> False)
          \<and> (case map_of d (lit ''weather'') of
                Some (PList (PDict w0 # _)) \<Rightarrow> has_field w0 (lit ''description'')
              | _ \<Rightarrow> False)
          \<and> (case map_of d (lit ''wind'') of
                Some (PDict wi) \<Rightarrow> has_field wi (lit ''speed'')
              | _ \<Rightarrow> False)
      | _ \<Rightarrow> False)"

text \<open>The upstream \<open>weather[0].description\<close>, when the body holds a string there.\<close>

definition upstream_description :: "response \<Rightarrow> pystr option" where
  "upstream_description resp =
     (case json resp of
        Inr (PDict d) \<Rightarrow>
          (case map_of d (lit ''weather'') of
             Some (PList (PDict w0 # _)) \<Rightarrow>
               (case map_of w0 (lit ''description'') of Some (PStr s) \<Rightarrow> Some s | _ \<Rightarrow> None)
           | _ \<Rightarrow> None)
      | _ \<Rightarrow> None)"

text \<open>
  The value of a JSON number as a float: a float is itself, an integer of magnitude at
  most \<open>2 ^ 53\<close> is the double equal to it.
\<close>

definition number_as_float :: "pyval \<Rightarrow> pyfloat option" where
  "number_as_float v =
     (case v of
        PFloat f \<Rightarrow> Some f
      | PInt i \<Rightarrow> (if \<bar>i\<bar> \<le> 2 ^ 53 then Some (Finite (of_int i)) else None)
      | _ \<Rightarrow> None)"

text \<open>The strings the two debugging lines write for a response, in order.\<close>

definition debug_writes :: "response \<Rightarrow> pystr list" where
  "debug_writes resp =
     [lit ''OpenWeatherMap status code:'', lit '' '', str_int (status_code resp), [10],
      lit ''Response text:'', lit '' '', resp_text resp, [10]]"

section \<open>Concrete inputs\<close>

text \<open>
  A runtime that leaves every character beyond ASCII as it is and coerces nothing, worlds
  without the key, with an empty key and with a key, whose stdout takes every string, and
  a mocked upstream that answers every request with one fixed response.
\<close>

definition plain_runtime :: runtime where
  "plain_runtime =
     \<lparr>title_full = (\<lambda>c. [c]), lower_full = (\<lambda>s i. [s ! i]),
      big_int_to_float = (\<lambda>i. None), lax_str = (\<lambda>v. None),
      lax_int = (\<lambda>v. None), lax_float = (\<lambda>v. None)\<rparr>"

definition no_key_world :: world where
  "no_key_world =
     \<lparr>environ = Map.empty, outbound = [], stdout = [], stdout_error = (\<lambda>s. None)\<rparr>"

definition empty_key_world :: world where
  "empty_key_world =
     \<lparr>environ = [API_KEY_NAME \<mapsto> []], outbound = [], stdout = [],
      stdout_error = (\<lambda>s. None)\<rparr>"

definition keyed_world :: world where
  "keyed_world =
     \<lparr>environ = [API_KEY_NAME \<mapsto> lit ''secret''], outbound = [], stdout = [],
      stdout_error = (\<lambda>s. None)\<rparr>"

definition mock :: "int \<Rightarrow> pystr \<Rightarrow> exn + pyval \<Rightarrow> upstream" where
  "mock status txt j = (\<lambda>req. Inr \<lparr>status_code = status, resp_text = txt, json = j\<rparr>)"

definition sample_body :: "pystr \<Rightarrow> pyval" where
  "sample_body desc =
     PDict [(lit ''name'', PStr (lit ''London'')),
            (lit ''main'', PDict [(lit ''temp'', PFloat (Finite (31 / 2))),
                                  (lit ''humidity'', PInt 81)]),
            (lit ''weather'', PList [PDict [(lit ''description'', PStr desc)]]),
            (lit ''wind'', PDict [(lit ''speed'', PInt 4)])]"


text \<open>
  A world with the key whose stdout is an ASCII stream: it refuses every string holding a
  code point from 128 on.
\<close>

fun all_ascii :: "pystr \<Rightarrow> bool" where
  "all_ascii [] = True"
| "all_ascii (c # cs) = (c < 128 \<and> all_ascii cs)"

definition ascii_stdout_world :: world where
  "ascii_stdout_world =
     \<lparr>environ = [API_KEY_NAME \<mapsto> lit ''secret''], outbound = [], stdout = [],
      stdout_error = (\<lambda>s. if all_ascii s then None else Some CannotEncode)\<rparr>"

text \<open>
  A body that holds every expected field, with \<open>null\<close> as the name; and one whose
  temperature is the integer \<open>2 ^ 53 + 1\<close>, which is not a double: the nearest double is
  \<open>2 ^ 53\<close>, and \<open>rounding_runtime\<close> converts it so.
\<close>

definition body_null_name :: pyval where
  "body_null_name =
     PDict [(lit ''name'', PNone),
            (lit ''main'', PDict [(lit ''temp'', PFloat (Finite (31 / 2))),
                                  (lit ''humidity'', PInt 81)]),
            (lit ''weather'', PList [PDict [(lit ''description'', PStr (lit ''light rain''))]]),
            (lit ''wind'', PDict [(lit ''speed'', PInt 4)])]"

definition body_big_temp :: pyval where
  "body_big_temp =
     PDict [(lit ''name'', PStr (lit ''London'')),
            (lit ''main'', PDict [(lit ''temp'', PInt 9007199254740993),
                                  (lit ''humidity'', PInt 81)]),
            (lit ''weather'', PList [PDict [(lit ''description'', PStr (lit ''light rain''))]]),
            (lit ''wind'', PDict [(lit ''speed'', PInt 4)])]"

definition rounding_runtime :: runtime where
  "rounding_runtime =
     plain_runtime\<lparr>big_int_to_float :=
       (\<lambda>i. if i = 9007199254740993 then Some (Finite 9007199254740992) else None)\<rparr>"

section \<open>Auxiliary facts\<close>

subsection \<open>The handler once the upstream has answered\<close>

lemma write_all_frame:
  "environ (snd (write_all ss w)) = environ w
   \<and> outbound (snd (write_all ss w)) = outbound w
   \<and> stdout_error (snd (write_all ss w)) = stdout_error w"
  by (induction ss arbitrary: w) (simp_all split: option.splits)

lemma write_all_failure: "fst (write_all ss w) = Some e \<Longrightarrow> \<exists>f. e = raised f"
  by (induction ss arbitrary: w) (auto split: option.splits)

lemma write_all_accepted:
  "\<forall>s \<in> set ss. stdout_error w s = None
   \<Longrightarrow> write_all ss w = (None, w\<lparr>stdout := stdout w @ ss\<rparr>)"
  by (induction ss arbitrary: w) simp_all


lemma print_debug_frame:
  "environ (snd (print_debug resp w)) = environ w
   \<and> outbound (snd (print_debug resp w)) = outbound w
   \<and> stdout_error (snd (print_debug resp w)) = stdout_error w"
proof -
  obtain r w1 where p: "print2 (lit ''OpenWeatherMap status code:'')
      (str_int (status_code resp)) w = (r, w1)"
    by (cases "print2 (lit ''OpenWeatherMap status code:'') (str_int (status_code resp)) w")
  then have f: "environ w1 = environ w \<and> outbound w1 = outbound w
      \<and> stdout_error w1 = stdout_error w"
    using write_all_frame
      [of "[lit ''OpenWeatherMap status code:'', lit '' '', str_int (status_code resp), [10]]" w]
    by (simp add: print2_def)
  show ?thesis
  proof (cases r)
    case None
    then show ?thesis
      using p f write_all_frame [of "[lit ''Response text:'', lit '' '', resp_text resp, [10]]" w1]
      by (simp add: print_debug_def print2_def)
  next
    case (Some e)
    then show ?thesis
      using p f by (simp add: print_debug_def)
  qed
qed

lemma print_debug_failure:
  assumes "fst (print_debug resp w) = Some e"
  shows "\<exists>f. e = raised f"
proof -
  obtain r w1 where p: "print2 (lit ''OpenWeatherMap status code:'')
      (str_int (status_code resp)) w = (r, w1)"
    by (cases "print2 (lit ''OpenWeatherMap status code:'') (str_int (status_code resp)) w")
  show ?thesis
  proof (cases r)
    case None
    then have "fst (print2 (lit ''Response text:'') (resp_text resp) w1) = Some e"
      using assms p by (simp add: print_debug_def)
    then show ?thesis
      unfolding print2_def by (rule write_all_failure)
  next
    case (Some e')
    then have "fst (print2 (lit ''OpenWeatherMap status code:'')
        (str_int (status_code resp)) w) = Some e"
      using assms p by (simp add: print_debug_def)
    then show ?thesis
      unfolding print2_def by (rule write_all_failure)
  qed
qed

lemma print2_accepted:
  assumes "stdout_error w a = None" and "stdout_error w (lit '' '') = None"
    and "stdout_error w b = None" and "stdout_error w [10] = None"
  shows "print2 a b w = (None, w\<lparr>stdout := stdout w @ [a, lit '' '', b, [10]]\<rparr>)"
  unfolding print2_def using assms by (intro write_all_accepted) simp

lemma print_debug_accepted:
  assumes "\<forall>s \<in> set (debug_writes resp). stdout_error w s = None"
  shows "print_debug resp w = (None, w\<lparr>stdout := stdout w @ debug_writes resp\<rparr>)"
proof -
  let ?a = "lit ''OpenWeatherMap status code:''" and ?b = "str_int (status_code resp)"
  let ?c = "lit ''Response text:''" and ?d = "resp_text resp"
  let ?w1 = "w\<lparr>stdout := stdout w @ [?a, lit '' '', ?b, [10]]\<rparr>"
  have h: "stdout_error w ?a = None" "stdout_error w (lit '' '') = None"
    "stdout_error w ?b = None" "stdout_error w [10] = None"
    "stdout_error w ?c = None" "stdout_error w ?d = None"
    using assms unfolding debug_writes_def by (simp_all only: list.set ball_simps)
  have 1: "print2 ?a ?b w = (None, ?w1)"
    using h(1-4) by (rule print2_accepted)
  have 2: "print2 ?c ?d ?w1 = (None, ?w1\<lparr>stdout := stdout ?w1 @ [?c, lit '' '', ?d, [10]]\<rparr>)"
    by (rule print2_accepted) (simp_all add: h)
  show ?thesis
    by (simp add: print_debug_def 1 2 debug_writes_def)
qed




lemma print_debug_json: "print_debug (resp\<lparr>json := j\<rparr>) w = print_debug resp w"
proof (cases "print2 (lit ''OpenWeatherMap status code:'') (str_int (status_code resp)) w")
  case (Pair r w1)
  then show ?thesis
    by (cases r) (simp_all add: print_debug_def)
qed

lemma fetch_weather_responded:
  assumes "environ w API_KEY_NAME = Some k" and "k \<noteq> []"
    and "client \<lparr>url = api_url, params = query_parameters city_name k\<rparr> = Inr resp"
  shows "fetch_weather rt client city_name w
           = (case print_debug resp
                  (send \<lparr>url = api_url, params = query_parameters city_name k\<rparr> w) of
                (Some e, w') \<Rightarrow> (Inl e, w')
              | (None, w') \<Rightarrow> (classify rt city_name resp, w'))"
  using assms by (simp add: fetch_weather_def)

lemma fetch_weather_printed:
  assumes "environ w API_KEY_NAME = Some k" and "k \<noteq> []"
    and "client \<lparr>url = api_url, params = query_parameters city_name k\<rparr> = Inr resp"
    and "\<forall>s \<in> set (debug_writes resp). stdout_error w s = None"
  shows "fst (fetch_weather rt client city_name w) = classify rt city_name resp"
proof -
  have "\<forall>s \<in> set (debug_writes resp).
          stdout_error (send \<lparr>url = api_url, params = query_parameters city_name k\<rparr> w) s
            = None"
    using assms(4) by (simp add: send_def)
  then show ?thesis
    using assms(1-3) by (simp add: fetch_weather_responded print_debug_accepted)
qed

lemma fetch_weather_outcome:
  assumes "environ w API_KEY_NAME = Some k" and "k \<noteq> []"
    and "client \<lparr>url = api_url, params = query_parameters city_name k\<rparr> = Inr resp"
  shows "(\<exists>f. fst (fetch_weather rt client city_name w) = Inl (raised f))
         \<or> fst (fetch_weather rt client city_name w) = classify rt city_name resp"
proof -
  let ?w = "send \<lparr>url = api_url, params = query_parameters city_name k\<rparr> w"
  show ?thesis
  proof (cases "fst (print_debug resp ?w)")
    case None
    then show ?thesis
      using assms by (cases "print_debug resp ?w") (simp add: fetch_weather_responded)
  next
    case (Some e)
    then obtain f where "e = raised f"
      using print_debug_failure by blast
    then show ?thesis
      using assms Some by (cases "print_debug resp ?w") (auto simp: fetch_weather_responded)
  qed
qed



lemma fetch_weather_outbound:
  assumes "environ w API_KEY_NAME = Some k" and "k \<noteq> []"
  shows "outbound (snd (fetch_weather rt client city_name w))
           = outbound w @ [\<lparr>url = api_url, params = query_parameters city_name k\<rparr>]"
proof (cases "client \<lparr>url = api_url, params = query_parameters city_name k\<rparr>")
  case (Inl e)
  then show ?thesis using assms by (simp add: fetch_weather_def send_def)
next
  case (Inr resp)
  let ?req = "\<lparr>url = api_url, params = query_parameters city_name k\<rparr>"
  show ?thesis
    using assms Inr print_debug_frame [of resp "send ?req w"]
    by (cases "print_debug resp (send ?req w)")
       (auto simp: fetch_weather_responded send_def split: option.splits)
qed

subsection \<open>Status codes contain a digit, the generic message does not\<close>

lemma digits_nonempty: "digits n \<noteq> []"
  by (subst digits.simps) simp

lemma last_digits: "last (digits n) = 48 + n mod 10"
  by (subst digits.simps) (simp add: digits_nonempty)

lemma digits_has_digit: "\<exists>c \<in> set (digits n). 48 \<le> c \<and> c \<le> 57"
proof -
  have "last (digits n) \<in> set (digits n)"
    using digits_nonempty by simp
  moreover have "n mod 10 \<le> 9"
    by (simp add: less_Suc_eq_le [symmetric])
  ultimately show ?thesis
    unfolding last_digits by (intro bexI [of _ "48 + n mod 10"]) simp_all
qed

lemma str_int_has_digit: "\<exists>c \<in> set (str_int i). 48 \<le> c \<and> c \<le> 57"
  using digits_has_digit [of "nat i"] digits_has_digit [of "nat (- i)"]
  by (auto simp: str_int_def)

lemma detail_no_digit: "\<forall>c \<in> set upstream_failure_detail. \<not> (48 \<le> c \<and> c \<le> 57)"
  by (simp add: upstream_failure_detail_def lit_def)

subsection \<open>When each step of the extraction succeeds, and how it fails\<close>

lemma bind_exn_Inr:
  "bind_exn m f = Inr y \<longleftrightarrow> (\<exists>x. m = Inr x \<and> f x = Inr y)"
  by (cases m) (simp_all add: bind_exn_def)


lemma getitem_key_Inr:
  "getitem_key v k = Inr x \<longleftrightarrow> (\<exists>kvs. v = PDict kvs \<and> map_of kvs k = Some x)"
  by (cases v) (simp_all split: option.splits)

lemma dict_get_Inr:
  "dict_get v k = Inr x \<longleftrightarrow>
     (\<exists>kvs. v = PDict kvs \<and> x = (case map_of kvs k of None \<Rightarrow> PNone | Some y \<Rightarrow> y))"
  by (cases v) auto

lemma getitem_0_Inr:
  "getitem_0 v = Inr x \<longleftrightarrow>
     (\<exists>xs. v = PList (x # xs)) \<or> (\<exists>c s. v = PStr (c # s) \<and> x = PStr [c])"
  by (cases v) (auto split: list.splits)

lemma call_capitalize_Inr:
  "call_capitalize rt v = Inr x \<longleftrightarrow> (\<exists>s. v = PStr s \<and> x = PStr (capitalize rt s))"
  by (cases v) auto






lemma WeatherInfo_init_Inr:
  "WeatherInfo_init rt c t h d s = Inr rep \<longleftrightarrow>
     (\<exists>c' t' h' d' s'. validate_str rt c = Some c' \<and> validate_float rt t = Some t'
        \<and> validate_int rt h = Some h' \<and> validate_str rt d = Some d'
        \<and> validate_float rt s = Some s'
        \<and> rep = \<lparr>city = c', temperature_celsius = t', humidity_percent = h',
                  weather_description = d', wind_speed_mps = s'\<rparr>)"
  by (auto simp: WeatherInfo_init_def split: option.splits)


lemma extract_report_Inr:
  "extract_report rt resp = Inr rep \<longleftrightarrow>
     (\<exists>d m w0 ws wi n t h desc s.
        json resp = Inr (PDict d)
        \<and> n = (case map_of d (lit ''name'') of None \<Rightarrow> PNone | Some y \<Rightarrow> y)
        \<and> map_of d (lit ''main'') = Some (PDict m)
        \<and> map_of m (lit ''temp'') = Some t
        \<and> map_of m (lit ''humidity'') = Some h
        \<and> map_of d (lit ''weather'') = Some (PList (PDict w0 # ws))
        \<and> map_of w0 (lit ''description'') = Some (PStr desc)
        \<and> map_of d (lit ''wind'') = Some (PDict wi)
        \<and> map_of wi (lit ''speed'') = Some s
        \<and> WeatherInfo_init rt n t h (PStr (capitalize rt desc)) s = Inr rep)"
  unfolding extract_report_def bind_exn_Inr getitem_key_Inr dict_get_Inr getitem_0_Inr
    call_capitalize_Inr
  by (auto; blast?)

lemma validate_float_number:
  "number_as_float v = Some f \<Longrightarrow> validate_float rt v = Some f"
  by (cases v) (simp_all add: number_as_float_def validate_float_def int_to_float_def split: if_splits)

subsection \<open>\<open>capitalize\<close> on ASCII text\<close>

lemma capitalize_ascii:
  assumes "\<forall>x \<in> set (c # cs). x < 128"
  shows "capitalize rt (c # cs) = ascii_upper c # map ascii_lower cs"
proof -
  have "map (to_lower_at rt (c # cs)) [1..<length (c # cs)]
          = map (\<lambda>i. [ascii_lower ((c # cs) ! i)]) [1..<length (c # cs)]"
  proof (intro map_cong refl)
    fix i assume "i \<in> set [1..<length (c # cs)]"
    then have "(c # cs) ! i \<in> set (c # cs)"
      by (intro nth_mem) (simp del: upt_Suc)
    then have "(c # cs) ! i < 128"
      using assms by blast
    then show "to_lower_at rt (c # cs) i = [ascii_lower ((c # cs) ! i)]"
      by (simp add: to_lower_at_def)
  qed
  also have "\<dots> = map (\<lambda>i. [ascii_lower (cs ! i)]) [0..<length cs]"
  proof -
    have "[1..<length (c # cs)] = map Suc [0..<length cs]"
      by (simp add: map_Suc_upt del: upt_Suc)
    then show ?thesis
      by (simp only: map_map comp_def nth_Cons_Suc)
  qed
  also have "\<dots> = map (\<lambda>x. [ascii_lower x]) (map (nth cs) [0..<length cs])"
    by (simp add: comp_def)
  also have "\<dots> = map (\<lambda>x. [ascii_lower x]) cs"
    by (simp only: map_nth)
  finally have "concat (map (to_lower_at rt (c # cs)) [1..<length (c # cs)]) = map ascii_lower cs"
    by (simp add: concat_map_singleton)
  then show ?thesis
    using assms by (simp add: capitalize_def to_title_def)
qed

lemma capitalize_light_rain: "capitalize rt (lit ''light rain'') = lit ''Light rain''"
  by (simp add: lit_def capitalize_ascii ascii_upper_def ascii_lower_def)

lemma capitalize_light_Rain: "capitalize rt (lit ''light Rain'') = lit ''Light rain''"
  by (simp add: lit_def capitalize_ascii ascii_upper_def ascii_lower_def)

subsection \<open>The concrete inputs evaluated\<close>

lemma keyed_world_key: "environ keyed_world API_KEY_NAME = Some (lit ''secret'')"
  by (simp add: keyed_world_def)

lemma secret_nonempty: "lit ''secret'' \<noteq> []"
  by (simp add: lit_def)

lemma keyed_world_accepts: "\<forall>s \<in> set ss. stdout_error keyed_world s = None"
  by (simp add: keyed_world_def)

lemma keyed_run:
  "fst (get_weather rt (mock st txt j) city_name keyed_world)
     = classify rt city_name \<lparr>status_code = st, resp_text = txt, json = j\<rparr>"
proof -
  have "mock st txt j
          \<lparr>url = api_url, params = query_parameters city_name (lit ''secret'')\<rparr>
        = Inr \<lparr>status_code = st, resp_text = txt, json = j\<rparr>"
    by (simp add: mock_def)
  with keyed_world_key secret_nonempty show ?thesis
    unfolding get_weather_def
    by (rule fetch_weather_printed) (rule keyed_world_accepts)
qed

lemma sample_run:
  "fst (get_weather plain_runtime (mock 200 txt (Inr (sample_body desc))) city_name keyed_world)
     = Inr \<lparr>city = lit ''London'', temperature_celsius = Finite (31 / 2),
            humidity_percent = 81, weather_description = capitalize plain_runtime desc,
            wind_speed_mps = Finite 4\<rparr>"
proof -
  have "extract_report plain_runtime
          \<lparr>status_code = 200, resp_text = txt, json = Inr (sample_body desc)\<rparr>
        = Inr \<lparr>city = lit ''London'', temperature_celsius = Finite (31 / 2),
            humidity_percent = 81, weather_description = capitalize plain_runtime desc,
            wind_speed_mps = Finite 4\<rparr>"
    by (simp add: extract_report_def bind_exn_def sample_body_def lit_def
        WeatherInfo_init_def validate_str_def validate_float_def validate_int_def
        int_to_float_def)
  then show ?thesis
    by (simp add: keyed_run classify_def)
qed

subsection \<open>An ASCII stdout\<close>

lemma all_ascii_append: "all_ascii (xs @ ys) \<longleftrightarrow> all_ascii xs \<and> all_ascii ys"
  by (induction xs) auto

lemma all_ascii_digits: "all_ascii (digits n)"
proof (induction n rule: digits.induct)
  case (1 n)
  have "n mod 10 < 10" by simp
  then have "48 + n mod 10 < 128" by linarith
  then show ?case
    using "1" by (subst digits.simps) (auto simp: all_ascii_append)
qed

lemma all_ascii_str_int: "all_ascii (str_int i)"
  by (simp add: str_int_def all_ascii_digits)

lemma ascii_stdout_world_key: "environ ascii_stdout_world API_KEY_NAME = Some (lit ''secret'')"
  by (simp add: ascii_stdout_world_def)

lemma ascii_stdout_print:
  assumes "stdout_error w = (\<lambda>s. if all_ascii s then None else Some CannotEncode)"
    and "\<not> all_ascii txt"
  shows "fst (print_debug \<lparr>status_code = st, resp_text = txt, json = j\<rparr> w)
           = Some UnicodeEncodeError"
proof -
  let ?a = "lit ''OpenWeatherMap status code:''" and ?b = "str_int st"
  let ?w1 = "w\<lparr>stdout := stdout w @ [?a, lit '' '', ?b, [10]]\<rparr>"
  have "all_ascii ?a" "all_ascii (lit '' '')" "all_ascii [10]"
    by (simp_all add: lit_def)
  then have 1: "print2 ?a ?b w = (None, ?w1)"
    using assms(1) all_ascii_str_int [of st] by (intro print2_accepted) simp_all
  have c: "all_ascii (lit ''Response text:'')" "all_ascii (lit '' '')"
    by (simp_all add: lit_def)
  have "write_all [txt, [10]] (?w1\<lparr>stdout := stdout ?w1 @ [lit ''Response text:'', lit '' '']\<rparr>)
          = (Some UnicodeEncodeError,
             ?w1\<lparr>stdout := stdout ?w1 @ [lit ''Response text:'', lit '' '']\<rparr>)"
    using assms by simp
  then have "fst (print2 (lit ''Response text:'') txt ?w1) = Some UnicodeEncodeError"
    using assms(1) c by (simp add: print2_def)
  then show ?thesis
    using 1 by (simp add: print_debug_def)
qed

lemma ascii_stdout_run:
  assumes "\<not> all_ascii txt"
  shows "fst (get_weather rt (mock st txt j) city_name ascii_stdout_world)
           = Inl UnicodeEncodeError"
proof -
  let ?req = "\<lparr>url = api_url, params = query_parameters city_name (lit ''secret'')\<rparr>"
  let ?resp = "\<lparr>status_code = st, resp_text = txt, json = j\<rparr>"
  have "stdout_error (send ?req ascii_stdout_world)
          = (\<lambda>s. if all_ascii s then None else Some CannotEncode)"
    by (simp add: send_def ascii_stdout_world_def)
  then have "fst (print_debug ?resp (send ?req ascii_stdout_world)) = Some UnicodeEncodeError"
    using assms by (rule ascii_stdout_print)
  moreover have "mock st txt j ?req = Inr ?resp"
    by (simp add: mock_def)
  ultimately show ?thesis
    using fetch_weather_responded
      [OF ascii_stdout_world_key secret_nonempty, of "mock st txt j" city_name ?resp rt]
    by (cases "print_debug ?resp (send ?req ascii_stdout_world)")
       (simp add: get_weather_def)
qed


section \<open>The credential\<close>

text \<open>
  C2. When the credential variable is absent from the environment, every request fails
  with the HTTP 500 "key is missing" error, whatever the city and the upstream, and the
  world is returned as it was: nothing is added to the outbound calls.
\<close>

theorem absent_key_fails_without_call:
  assumes "environ w API_KEY_NAME = None"
  shows "get_weather rt client city_name w
           = (Inl (HTTPException 500
                (lit ''OpenWeatherMap API key is missing. Please set it in your environment variables.'')),
              w)"
  using assms by (simp add: get_weather_def fetch_weather_def key_missing_detail_def)

theorem absent_key_fails_without_call_witness:
  "environ no_key_world API_KEY_NAME = None
   \<and> get_weather plain_runtime (mock 200 [] (Inr (sample_body (lit ''light rain''))))
         (lit ''London'') no_key_world
       = (Inl (HTTPException 500 key_missing_detail), no_key_world)
   \<and> outbound no_key_world = []"
proof -
  have h: "environ no_key_world API_KEY_NAME = None"
    by (simp add: no_key_world_def)
  show ?thesis
    using h absent_key_fails_without_call [OF h]
    by (simp add: no_key_world_def key_missing_detail_def)
qed

text \<open>
  C9. When the credential variable is set to the empty string, the request fails with the
  same HTTP 500 error as when the variable is absent, and the world is returned as it
  was: no outbound call is issued.
\<close>

theorem empty_key_fails_without_call:
  assumes "environ w API_KEY_NAME = Some []" and "environ w' API_KEY_NAME = None"
  shows "get_weather rt client city_name w
           = (Inl (HTTPException 500 key_missing_detail), w)
         \<and> fst (get_weather rt client city_name w)
             = fst (get_weather rt' client' city_name' w')"
  using assms by (simp add: get_weather_def fetch_weather_def)

theorem empty_key_fails_without_call_witness:
  "environ empty_key_world API_KEY_NAME = Some []
   \<and> environ no_key_world API_KEY_NAME = None
   \<and> get_weather plain_runtime (mock 200 [] (Inr (sample_body (lit ''light rain''))))
         (lit ''London'') empty_key_world
       = (Inl (HTTPException 500 key_missing_detail), empty_key_world)
   \<and> outbound empty_key_world = []"
proof -
  have h: "environ empty_key_world API_KEY_NAME = Some []"
    by (simp add: empty_key_world_def)
  have h': "environ no_key_world API_KEY_NAME = None"
    by (simp add: no_key_world_def)
  show ?thesis
    using h h' empty_key_fails_without_call [OF h h'] by (simp add: empty_key_world_def)
qed

section \<open>The outbound call\<close>

text \<open>
  C6. When the credential is present, the request hands exactly one call to the HTTP
  client: the fixed URL with exactly the three query parameters \<open>q\<close>, \<open>appid\<close> and
  \<open>units\<close>, where \<open>q\<close> is the requested city name as it was given (any sequence of
  code points, spaces and non-ASCII ones included), \<open>appid\<close> is the credential and
  \<open>units\<close> is \<open>metric\<close>.
\<close>

theorem outbound_call_parameters:
  assumes "environ w API_KEY_NAME = Some k" and "k \<noteq> []"
  shows "outbound (snd (get_weather rt client city_name w))
           = outbound w @
             [\<lparr>url = lit ''https://api.openweathermap.org/data/2.5/weather'',
               params = [(lit ''q'', city_name), (lit ''appid'', k),
                         (lit ''units'', lit ''metric'')]\<rparr>]"
  using fetch_weather_outbound [OF assms, of rt client city_name]
  by (simp add: get_weather_def api_url_def query_parameters_def)

theorem outbound_call_parameters_witness:
  "environ keyed_world API_KEY_NAME = Some (lit ''secret'') \<and> lit ''secret'' \<noteq> []
   \<and> outbound (snd (get_weather plain_runtime (mock 404 [] (Inl JSONDecodeError))
         [83, 227, 111, 32, 80, 97, 117, 108, 111] keyed_world))
       = [\<lparr>url = lit ''https://api.openweathermap.org/data/2.5/weather'',
           params = [(lit ''q'', [83, 227, 111, 32, 80, 97, 117, 108, 111]),
                     (lit ''appid'', lit ''secret''), (lit ''units'', lit ''metric'')]\<rparr>]"
  using outbound_call_parameters [of keyed_world "lit ''secret''" plain_runtime
      "mock 404 [] (Inl JSONDecodeError)" "[83, 227, 111, 32, 80, 97, 117, 108, 111]"]
  by (simp add: keyed_world_def lit_def)

section \<open>Classification of the upstream status\<close>

text \<open>
  C3, as stated, fails: the two debugging lines are printed before the status is looked
  at, and \<open>print\<close> raises when stdout refuses the text. On an ASCII stdout, a 404
  response whose text holds an \<open>e\<close> with acute accent (code point 233) ends in
  \<open>UnicodeEncodeError\<close>, not in the 404 error.
\<close>

theorem not_found_print_raises:
  "fst (get_weather plain_runtime (mock 404 [233] (Inl JSONDecodeError))
        (lit ''Atlantis'') ascii_stdout_world)
     = Inl UnicodeEncodeError"
  by (simp add: ascii_stdout_run)

text \<open>
  C3, amended. When the upstream answers with status 404 and stdout takes the strings of
  the two debugging lines, the request fails with an \<open>HTTPException\<close> of status 404
  whose detail is \<open>City '<city_name>' not found.\<close>, so the requested city name occurs in
  it exactly as given.
\<close>

theorem not_found_names_city:
  assumes "environ w API_KEY_NAME = Some k" and "k \<noteq> []"
    and "client \<lparr>url = api_url, params = query_parameters city_name k\<rparr> = Inr resp"
    and "\<forall>s \<in> set (debug_writes resp). stdout_error w s = None"
    and "status_code resp = 404"
  shows "fst (get_weather rt client city_name w)
           = Inl (HTTPException 404 (lit ''City '' @ [39] @ city_name @ [39] @ lit '' not found.''))
         \<and> sublist city_name (lit ''City '' @ [39] @ city_name @ [39] @ lit '' not found.'')"
proof -
  have "sublist city_name (lit ''City '' @ [39] @ city_name @ ([39] @ lit '' not found.''))"
    by (metis sublist_appendI append.assoc)
  moreover have "fst (fetch_weather rt client city_name w) = classify rt city_name resp"
    using assms(1-4) by (rule fetch_weather_printed)
  ultimately show ?thesis
    using assms(5) by (simp add: get_weather_def classify_def not_found_detail_def)
qed

theorem not_found_names_city_witness:
  "environ keyed_world API_KEY_NAME = Some (lit ''secret'') \<and> lit ''secret'' \<noteq> []
   \<and> mock 404 (lit ''no such city'') (Inl JSONDecodeError)
         \<lparr>url = api_url, params = query_parameters (lit ''Atlantis'') (lit ''secret'')\<rparr>
       = Inr \<lparr>status_code = 404, resp_text = lit ''no such city'', json = Inl JSONDecodeError\<rparr>
   \<and> fst (get_weather plain_runtime (mock 404 (lit ''no such city'') (Inl JSONDecodeError))
            (lit ''Atlantis'') keyed_world)
       = Inl (HTTPException 404 (lit ''City '' @ [39] @ lit ''Atlantis'' @ [39] @ lit '' not found.''))"
proof -
  have c: "mock 404 (lit ''no such city'') (Inl JSONDecodeError)
         \<lparr>url = api_url, params = query_parameters (lit ''Atlantis'') (lit ''secret'')\<rparr>
       = Inr \<lparr>status_code = 404, resp_text = lit ''no such city'', json = Inl JSONDecodeError\<rparr>"
    by (simp add: mock_def)
  have s: "status_code \<lparr>status_code = 404, resp_text = lit ''no such city'',
      json = Inl JSONDecodeError\<rparr> = 404"
    by simp
  have "fst (get_weather plain_runtime (mock 404 (lit ''no such city'') (Inl JSONDecodeError))
            (lit ''Atlantis'') keyed_world)
       = Inl (HTTPException 404 (lit ''City '' @ [39] @ lit ''Atlantis'' @ [39] @ lit '' not found.''))
     \<and> sublist (lit ''Atlantis'')
         (lit ''City '' @ [39] @ lit ''Atlantis'' @ [39] @ lit '' not found.'')"
    using keyed_world_key secret_nonempty c keyed_world_accepts s
    by (rule not_found_names_city)
  then show ?thesis
    using keyed_world_key secret_nonempty c by blast
qed

text \<open>
  C4, as stated, fails for the same reason: on an ASCII stdout, a 500 response whose text
  holds the euro sign (code point 8364) ends in \<open>UnicodeEncodeError\<close>, not in the 502
  error.
\<close>

theorem upstream_failure_print_raises:
  "fst (get_weather plain_runtime (mock 500 [8364] (Inl JSONDecodeError))
        (lit ''Paris'') ascii_stdout_world)
     = Inl UnicodeEncodeError"
  by (simp add: ascii_stdout_run)

text \<open>
  C4, amended. When the upstream answers with a status other than 200 and 404 and stdout
  takes the strings of the two debugging lines, the request fails with an
  \<open>HTTPException\<close> of status 502 whose detail is one fixed sentence, the same for every
  status and body; the decimal rendering of the upstream status does not occur in it.
\<close>

theorem other_status_generic_failure:
  assumes "environ w API_KEY_NAME = Some k" and "k \<noteq> []"
    and "client \<lparr>url = api_url, params = query_parameters city_name k\<rparr> = Inr resp"
    and "\<forall>s \<in> set (debug_writes resp). stdout_error w s = None"
    and "status_code resp \<noteq> 200" and "status_code resp \<noteq> 404"
  shows "fst (get_weather rt client city_name w)
           = Inl (HTTPException 502 (lit ''Something went wrong while fetching weather data.''))
         \<and> \<not> sublist (str_int (status_code resp))
                (lit ''Something went wrong while fetching weather data.'')"
proof -
  have "\<not> sublist (str_int (status_code resp)) upstream_failure_detail"
  proof
    assume "sublist (str_int (status_code resp)) upstream_failure_detail"
    then have "set (str_int (status_code resp)) \<subseteq> set upstream_failure_detail"
      by (rule set_mono_sublist)
    then show False
      using str_int_has_digit [of "status_code resp"] detail_no_digit by blast
  qed
  moreover have "fst (fetch_weather rt client city_name w) = classify rt city_name resp"
    using assms(1-4) by (rule fetch_weather_printed)
  ultimately show ?thesis
    using assms(5,6) by (simp add: get_weather_def classify_def upstream_failure_detail_def)
qed

theorem other_status_generic_failure_witness:
  "environ keyed_world API_KEY_NAME = Some (lit ''secret'') \<and> lit ''secret'' \<noteq> []
   \<and> mock 500 (lit ''server error'') (Inl JSONDecodeError)
         \<lparr>url = api_url, params = query_parameters (lit ''Paris'') (lit ''secret'')\<rparr>
       = Inr \<lparr>status_code = 500, resp_text = lit ''server error'', json = Inl JSONDecodeError\<rparr>
   \<and> fst (get_weather plain_runtime (mock 500 (lit ''server error'') (Inl JSONDecodeError))
            (lit ''Paris'') keyed_world)
       = Inl (HTTPException 502 (lit ''Something went wrong while fetching weather data.''))
   \<and> \<not> sublist (str_int 500) (lit ''Something went wrong while fetching weather data.'')"
proof -
  have c: "mock 500 (lit ''server error'') (Inl JSONDecodeError)
         \<lparr>url = api_url, params = query_parameters (lit ''Paris'') (lit ''secret'')\<rparr>
       = Inr \<lparr>status_code = 500, resp_text = lit ''server error'', json = Inl JSONDecodeError\<rparr>"
    by (simp add: mock_def)
  have s: "status_code \<lparr>status_code = 500, resp_text = lit ''server error'',
      json = Inl JSONDecodeError\<rparr> \<noteq> 200"
    "status_code \<lparr>status_code = 500, resp_text = lit ''server error'',
      json = Inl JSONDecodeError\<rparr> \<noteq> 404"
    by simp_all
  have "fst (get_weather plain_runtime (mock 500 (lit ''server error'') (Inl JSONDecodeError))
            (lit ''Paris'') keyed_world)
       = Inl (HTTPException 502 (lit ''Something went wrong while fetching weather data.''))
     \<and> \<not> sublist
         (str_int (status_code \<lparr>status_code = 500, resp_text = lit ''server error'',
            json = Inl JSONDecodeError\<rparr>))
         (lit ''Something went wrong while fetching weather data.'')"
    using keyed_world_key secret_nonempty c keyed_world_accepts s
    by (rule other_status_generic_failure)
  then show ?thesis
    using keyed_world_key secret_nonempty c by simp
qed

text \<open>
  C10. When the upstream status is not 200, what \<open>json()\<close> would yield is never looked
  at: replacing it by anything else, a decoding error included, changes neither the
  result nor the world; and the request ends in an exception, which is not the decoder's.
\<close>

theorem non_200_body_not_parsed:
  assumes "environ w API_KEY_NAME = Some k" and "k \<noteq> []"
    and "client \<lparr>url = api_url, params = query_parameters city_name k\<rparr> = Inr resp"
    and "client' \<lparr>url = api_url, params = query_parameters city_name k\<rparr>
           = Inr (resp\<lparr>json := j\<rparr>)"
    and "status_code resp \<noteq> 200"
  shows "get_weather rt client' city_name w = get_weather rt client city_name w
         \<and> (\<exists>e. fst (get_weather rt client city_name w) = Inl e \<and> e \<noteq> JSONDecodeError)"
proof -
  have "classify rt city_name (resp\<lparr>json := j\<rparr>) = classify rt city_name resp"
    using assms(5) by (simp add: classify_def)
  then have same: "get_weather rt client' city_name w = get_weather rt client city_name w"
    using assms(1-4)
    by (cases "print_debug resp
          (send \<lparr>url = api_url, params = query_parameters city_name k\<rparr> w)")
       (auto simp: get_weather_def fetch_weather_responded print_debug_json
          split: option.splits)
  have "\<exists>e. classify rt city_name resp = Inl e \<and> e \<noteq> JSONDecodeError"
    using assms(5) by (simp add: classify_def)
  moreover have "\<exists>e. Inl (raised f) = (Inl e :: exn + WeatherInfo) \<and> e \<noteq> JSONDecodeError" for f
    by (cases f) simp_all
  ultimately have "\<exists>e. fst (get_weather rt client city_name w) = Inl e \<and> e \<noteq> JSONDecodeError"
    using fetch_weather_outcome [where client = client, OF assms(1-3), of rt] unfolding get_weather_def by metis
  then show ?thesis
    using same by blast
qed

theorem non_200_body_not_parsed_witness:
  "environ keyed_world API_KEY_NAME = Some (lit ''secret'') \<and> lit ''secret'' \<noteq> []
   \<and> get_weather plain_runtime (mock 404 [] (Inl JSONDecodeError)) (lit ''Atlantis'') keyed_world
       = get_weather plain_runtime (mock 404 [] (Inr PNone)) (lit ''Atlantis'') keyed_world
   \<and> fst (get_weather plain_runtime (mock 404 [] (Inr PNone)) (lit ''Atlantis'') keyed_world)
       = Inl (HTTPException 404 (not_found_detail (lit ''Atlantis'')))"
proof -
  have c: "mock 404 [] (Inr PNone)
         \<lparr>url = api_url, params = query_parameters (lit ''Atlantis'') (lit ''secret'')\<rparr>
       = Inr \<lparr>status_code = 404, resp_text = [], json = Inr PNone\<rparr>"
    by (simp add: mock_def)
  have c': "mock 404 [] (Inl JSONDecodeError)
         \<lparr>url = api_url, params = query_parameters (lit ''Atlantis'') (lit ''secret'')\<rparr>
       = Inr (\<lparr>status_code = 404, resp_text = [], json = Inr PNone\<rparr>
               \<lparr>json := Inl JSONDecodeError\<rparr>)"
    by (simp add: mock_def)
  have s: "status_code \<lparr>status_code = 404, resp_text = [], json = Inr PNone\<rparr> \<noteq> 200"
    by simp
  have e: "fst (get_weather plain_runtime (mock 404 [] (Inr PNone)) (lit ''Atlantis'') keyed_world)
       = Inl (HTTPException 404 (not_found_detail (lit ''Atlantis'')))"
    by (simp add: keyed_run classify_def)
  show ?thesis
    using non_200_body_not_parsed
        [where client = "mock 404 [] (Inr PNone)"
           and client' = "mock 404 [] (Inl JSONDecodeError)",
         OF keyed_world_key secret_nonempty c c' s, of plain_runtime]
      keyed_world_key secret_nonempty e
    by blast
qed

section \<open>The report\<close>

text \<open>
  C1, as stated, fails: holding every expected field is not enough. A body whose \<open>name\<close>
  is \<open>null\<close> holds them all and ends in a \<open>ValidationError\<close>; a body whose \<open>main.temp\<close>
  is the integer \<open>2 ^ 53 + 1\<close> yields a report whose temperature is \<open>2 ^ 53\<close>.
\<close>

theorem expected_fields_not_enough:
  "has_expected_fields body_null_name
   \<and> fst (get_weather plain_runtime (mock 200 [] (Inr body_null_name))
            (lit ''London'') keyed_world)
       = Inl (ValidationError [lit ''city''])
   \<and> has_expected_fields body_big_temp
   \<and> fst (get_weather rounding_runtime (mock 200 [] (Inr body_big_temp))
            (lit ''London'') keyed_world)
       = Inr \<lparr>city = lit ''London'', temperature_celsius = Finite 9007199254740992,
              humidity_percent = 81, weather_description = lit ''Light rain'',
              wind_speed_mps = Finite 4\<rparr>
   \<and> Finite 9007199254740992 \<noteq> Finite 9007199254740993"
proof -
  have 1: "has_expected_fields body_null_name"
    by (simp add: has_expected_fields_def has_field_def body_null_name_def lit_def)
  have 2: "has_expected_fields body_big_temp"
    by (simp add: has_expected_fields_def has_field_def body_big_temp_def lit_def)
  have "extract_report plain_runtime
          \<lparr>status_code = 200, resp_text = [], json = Inr body_null_name\<rparr>
        = Inl (ValidationError [lit ''city''])"
    by (simp add: extract_report_def bind_exn_def body_null_name_def lit_def
        WeatherInfo_init_def validate_str_def validate_float_def validate_int_def
        int_to_float_def field_error_def)
  then have 3: "fst (get_weather plain_runtime (mock 200 [] (Inr body_null_name))
            (lit ''London'') keyed_world) = Inl (ValidationError [lit ''city''])"
    by (simp add: keyed_run classify_def)
  have "extract_report rounding_runtime
          \<lparr>status_code = 200, resp_text = [], json = Inr body_big_temp\<rparr>
        = Inr \<lparr>city = lit ''London'', temperature_celsius = Finite 9007199254740992,
              humidity_percent = 81,
              weather_description = capitalize rounding_runtime (lit ''light rain''),
              wind_speed_mps = Finite 4\<rparr>"
    by (simp add: extract_report_def bind_exn_def body_big_temp_def lit_def
        WeatherInfo_init_def validate_str_def validate_float_def validate_int_def
        int_to_float_def rounding_runtime_def plain_runtime_def)
  then have 4: "fst (get_weather rounding_runtime (mock 200 [] (Inr body_big_temp))
            (lit ''London'') keyed_world)
       = Inr \<lparr>city = lit ''London'', temperature_celsius = Finite 9007199254740992,
              humidity_percent = 81, weather_description = lit ''Light rain'',
              wind_speed_mps = Finite 4\<rparr>"
    by (simp add: keyed_run classify_def capitalize_light_rain)
  show ?thesis
    using 1 2 3 4 by simp
qed

text \<open>
  C1, amended. When the upstream answers with status 200, stdout takes the strings of the
  two debugging lines, and the decoded body holds every expected field with a value of
  the declared type (\<open>name\<close> and \<open>weather[0].description\<close> strings, \<open>main.humidity\<close> an
  integer, \<open>main.temp\<close> and \<open>wind.speed\<close> floats or integers of magnitude at most
  \<open>2 ^ 53\<close>), the request returns the report whose \<open>city\<close> is \<open>name\<close>, whose
  \<open>temperature_celsius\<close> is \<open>main.temp\<close>, whose \<open>humidity_percent\<close> is \<open>main.humidity\<close>,
  whose \<open>wind_speed_mps\<close> is \<open>wind.speed\<close>, and whose \<open>weather_description\<close> is
  \<open>weather[0].description\<close> capitalized: empty when the description is empty, and for
  an ASCII description its first character upper-cased followed by the others lower-cased.
\<close>

theorem well_formed_200_maps_fields:
  assumes "environ w API_KEY_NAME = Some k" and "k \<noteq> []"
    and "client \<lparr>url = api_url, params = query_parameters city_name k\<rparr> = Inr resp"
    and "\<forall>s \<in> set (debug_writes resp). stdout_error w s = None"
    and "status_code resp = 200"
    and "json resp = Inr (PDict d)"
    and "map_of d (lit ''name'') = Some (PStr n)"
    and "map_of d (lit ''main'') = Some (PDict m)"
    and "map_of m (lit ''temp'') = Some t" and "number_as_float t = Some tf"
    and "map_of m (lit ''humidity'') = Some (PInt h)"
    and "map_of d (lit ''weather'') = Some (PList (PDict w0 # ws))"
    and "map_of w0 (lit ''description'') = Some (PStr desc)"
    and "map_of d (lit ''wind'') = Some (PDict wi)"
    and "map_of wi (lit ''speed'') = Some s" and "number_as_float s = Some sf"
  shows "fst (get_weather rt client city_name w)
           = Inr \<lparr>city = n, temperature_celsius = tf, humidity_percent = h,
                  weather_description = capitalize rt desc, wind_speed_mps = sf\<rparr>
         \<and> (desc = [] \<longrightarrow> capitalize rt desc = [])
         \<and> (\<forall>c cs. desc = c # cs \<and> (\<forall>x \<in> set desc. x < 128)
               \<longrightarrow> capitalize rt desc = ascii_upper c # map ascii_lower cs)"
proof -
  have "WeatherInfo_init rt (PStr n) t (PInt h) (PStr (capitalize rt desc)) s
          = Inr \<lparr>city = n, temperature_celsius = tf, humidity_percent = h,
                 weather_description = capitalize rt desc, wind_speed_mps = sf\<rparr>"
    using assms(10,16)
    by (simp add: WeatherInfo_init_Inr validate_float_number validate_str_def validate_int_def)
  then have "extract_report rt resp
          = Inr \<lparr>city = n, temperature_celsius = tf, humidity_percent = h,
                 weather_description = capitalize rt desc, wind_speed_mps = sf\<rparr>"
    using assms(6-9,11-15) unfolding extract_report_Inr by simp
  moreover have "fst (fetch_weather rt client city_name w) = classify rt city_name resp"
    using assms(1-4) by (rule fetch_weather_printed)
  ultimately have "fst (get_weather rt client city_name w)
           = Inr \<lparr>city = n, temperature_celsius = tf, humidity_percent = h,
                  weather_description = capitalize rt desc, wind_speed_mps = sf\<rparr>"
    using assms(5) by (simp add: get_weather_def classify_def)
  moreover have "capitalize rt [] = []"
    by (simp add: capitalize_def)
  ultimately show ?thesis
    by (auto simp: capitalize_ascii)
qed

theorem well_formed_200_maps_fields_witness:
  "environ keyed_world API_KEY_NAME = Some (lit ''secret'') \<and> lit ''secret'' \<noteq> []
   \<and> number_as_float (PFloat (Finite (31 / 2))) = Some (Finite (31 / 2))
   \<and> number_as_float (PInt 4) = Some (Finite 4)
   \<and> fst (get_weather plain_runtime (mock 200 [] (Inr (sample_body (lit ''light rain''))))
            (lit ''London'') keyed_world)
       = Inr \<lparr>city = lit ''London'', temperature_celsius = Finite (31 / 2),
              humidity_percent = 81, weather_description = lit ''Light rain'',
              wind_speed_mps = Finite 4\<rparr>"
proof -
  let ?resp = "\<lparr>status_code = 200, resp_text = [],
                json = Inr (sample_body (lit ''light rain''))\<rparr>"
  let ?w0 = "[(lit ''description'', PStr (lit ''light rain''))]"
  let ?m = "[(lit ''temp'', PFloat (Finite (31 / 2))), (lit ''humidity'', PInt 81)]"
  let ?wi = "[(lit ''speed'', PInt 4)]"
  let ?d = "[(lit ''name'', PStr (lit ''London'')), (lit ''main'', PDict ?m),
             (lit ''weather'', PList [PDict ?w0]), (lit ''wind'', PDict ?wi)]"
  have c: "mock 200 [] (Inr (sample_body (lit ''light rain'')))
         \<lparr>url = api_url, params = query_parameters (lit ''London'') (lit ''secret'')\<rparr>
       = Inr ?resp"
    by (simp add: mock_def)
  have s: "status_code ?resp = 200"
    by simp
  have j: "json ?resp = Inr (PDict ?d)"
    by (simp add: sample_body_def)
  have d: "map_of ?d (lit ''name'') = Some (PStr (lit ''London''))"
    "map_of ?d (lit ''main'') = Some (PDict ?m)"
    "map_of ?d (lit ''weather'') = Some (PList (PDict ?w0 # []))"
    "map_of ?d (lit ''wind'') = Some (PDict ?wi)"
    by (simp_all add: lit_def)
  have m: "map_of ?m (lit ''temp'') = Some (PFloat (Finite (31 / 2)))"
    "map_of ?m (lit ''humidity'') = Some (PInt 81)"
    by (simp_all add: lit_def)
  have w: "map_of ?w0 (lit ''description'') = Some (PStr (lit ''light rain''))"
    "map_of ?wi (lit ''speed'') = Some (PInt 4)"
    by simp_all
  have n: "number_as_float (PFloat (Finite (31 / 2))) = Some (Finite (31 / 2))"
    "number_as_float (PInt 4) = Some (Finite 4)"
    by (simp_all add: number_as_float_def)
  have "fst (get_weather plain_runtime (mock 200 [] (Inr (sample_body (lit ''light rain''))))
            (lit ''London'') keyed_world)
       = Inr \<lparr>city = lit ''London'', temperature_celsius = Finite (31 / 2),
              humidity_percent = 81,
              weather_description = capitalize plain_runtime (lit ''light rain''),
              wind_speed_mps = Finite 4\<rparr>"
    using well_formed_200_maps_fields
      [where rt = plain_runtime and w = keyed_world and resp = ?resp and d = ?d and m = ?m
         and ?w0.0 = ?w0 and ws = "[]" and wi = ?wi
         and client = "mock 200 [] (Inr (sample_body (lit ''light rain'')))",
       OF keyed_world_key secret_nonempty c _ s j d(1,2) m(1) n(1) m(2) d(3) w(1) d(4) w(2) n(2)]
      keyed_world_accepts
    by blast
  then show ?thesis
    using keyed_world_key secret_nonempty n by (simp add: capitalize_light_rain)
qed

text \<open>
  C5, as stated, fails: the characters after the first are not always unchanged. For the
  upstream description \<open>light Rain\<close> the report says \<open>Light rain\<close>.
\<close>

theorem description_tail_lowered:
  "fst (get_weather plain_runtime (mock 200 [] (Inr (sample_body (lit ''light Rain''))))
        (lit ''London'') keyed_world)
     = Inr \<lparr>city = lit ''London'', temperature_celsius = Finite (31 / 2),
            humidity_percent = 81, weather_description = lit ''Light rain'',
            wind_speed_mps = Finite 4\<rparr>
   \<and> tl (lit ''Light rain'') \<noteq> tl (lit ''light Rain'')"
  by (simp add: sample_run capitalize_light_Rain) (simp add: lit_def)

text \<open>
  C5, amended. On a 200 response that yields a report, \<open>weather_description\<close> is
  \<open>capitalize\<close> of the upstream \<open>weather[0].description\<close>: the first character in title
  case and every later character in lower case. For an ASCII description this is the
  first character upper-cased followed by the others lower-cased.
\<close>

theorem description_python_capitalize:
  assumes "environ w API_KEY_NAME = Some k" and "k \<noteq> []"
    and "client \<lparr>url = api_url, params = query_parameters city_name k\<rparr> = Inr resp"
    and "status_code resp = 200"
    and "upstream_description resp = Some desc"
    and "fst (get_weather rt client city_name w) = Inr rep"
  shows "weather_description rep = capitalize rt desc
         \<and> (\<forall>c cs. desc = c # cs \<and> (\<forall>x \<in> set desc. x < 128)
               \<longrightarrow> weather_description rep = ascii_upper c # map ascii_lower cs)"
proof -
  have "fst (fetch_weather rt client city_name w) = classify rt city_name resp"
    using fetch_weather_outcome [where client = client, OF assms(1-3), of rt] assms(6)
    by (auto simp: get_weather_def)
  then have "extract_report rt resp = Inr rep"
    using assms(4,6) by (simp add: get_weather_def classify_def)
  then obtain d w0 ws desc' c t h s where
    d: "json resp = Inr (PDict d)"
    and ws: "map_of d (lit ''weather'') = Some (PList (PDict w0 # ws))"
      "map_of w0 (lit ''description'') = Some (PStr desc')"
    and init: "WeatherInfo_init rt c t h (PStr (capitalize rt desc')) s = Inr rep"
    unfolding extract_report_Inr by blast
  have "desc' = desc"
    using assms(5) d ws by (simp add: upstream_description_def)
  then have "weather_description rep = capitalize rt desc"
    using init by (auto simp: WeatherInfo_init_Inr validate_str_def)
  then show ?thesis
    by (auto simp: capitalize_ascii)
qed

theorem description_python_capitalize_witness:
  "environ keyed_world API_KEY_NAME = Some (lit ''secret'') \<and> lit ''secret'' \<noteq> []
   \<and> upstream_description
         \<lparr>status_code = 200, resp_text = [], json = Inr (sample_body (lit ''light Rain''))\<rparr>
       = Some (lit ''light Rain'')
   \<and> weather_description
         \<lparr>city = lit ''London'', temperature_celsius = Finite (31 / 2),
          humidity_percent = 81, weather_description = lit ''Light rain'',
          wind_speed_mps = Finite 4\<rparr>
       = ascii_upper 108 # map ascii_lower (lit ''ight Rain'')"
proof -
  have d: "upstream_description
         \<lparr>status_code = 200, resp_text = [], json = Inr (sample_body (lit ''light Rain''))\<rparr>
       = Some (lit ''light Rain'')"
    by (simp add: upstream_description_def sample_body_def) (simp add: lit_def)
  have a: "\<forall>x \<in> set (lit ''light Rain''). x < 128"
    by (simp add: lit_def)
  have r: "fst (get_weather plain_runtime (mock 200 [] (Inr (sample_body (lit ''light Rain''))))
        (lit ''London'') keyed_world)
     = Inr \<lparr>city = lit ''London'', temperature_celsius = Finite (31 / 2),
            humidity_percent = 81, weather_description = lit ''Light rain'',
            wind_speed_mps = Finite 4\<rparr>"
    by (simp add: sample_run capitalize_light_Rain)
  have c: "mock 200 [] (Inr (sample_body (lit ''light Rain'')))
             \<lparr>url = api_url, params = query_parameters (lit ''London'') (lit ''secret'')\<rparr>
           = Inr \<lparr>status_code = 200, resp_text = [],
                   json = Inr (sample_body (lit ''light Rain''))\<rparr>"
    by (simp add: mock_def)
  have s: "status_code \<lparr>status_code = 200, resp_text = [],
                   json = Inr (sample_body (lit ''light Rain''))\<rparr> = 200"
    by simp
  have l: "lit ''light Rain'' = 108 # lit ''ight Rain''"
    by (simp add: lit_def)
  have "\<forall>c cs. lit ''light Rain'' = c # cs \<and> (\<forall>x \<in> set (lit ''light Rain''). x < 128)
          \<longrightarrow> weather_description
                \<lparr>city = lit ''London'', temperature_celsius = Finite (31 / 2),
                 humidity_percent = 81, weather_description = lit ''Light rain'',
                 wind_speed_mps = Finite 4\<rparr>
              = ascii_upper c # map ascii_lower cs"
    by (rule conjunct2
          [OF description_python_capitalize [OF keyed_world_key secret_nonempty c s d r]])
  then have "weather_description
         \<lparr>city = lit ''London'', temperature_celsius = Finite (31 / 2),
          humidity_percent = 81, weather_description = lit ''Light rain'',
          wind_speed_mps = Finite 4\<rparr>
       = ascii_upper 108 # map ascii_lower (lit ''ight Rain'')"
    using l a by blast
  then show ?thesis
    using keyed_world_key secret_nonempty d by blast
qed



section \<open>Repeated requests\<close>


end
